theory Spec2Isabelle
  imports Complex_Main
begin

section \<open>Data model\<close>

text \<open>
  A pandas DataFrame of floats is modelled row-major: one row per date (ascending), one
  cell per instrument, columns identified by position. A cell is \<open>None\<close> where pandas
  holds NaN (missing / undefined) and \<open>Some v\<close> otherwise. A Series is one cell per date.

  Finite floating-point values are idealised as exact reals: rounding, overflow and
  underflow of doubles are outside the model, and so is every statement that depends
  on a computed double being exactly zero. Tables that take part in one computation
  share their dates and columns (pandas aligns on labels; the model is positional), so
  \<open>backtest\<close> is modelled for pre-aligned prices and positions.
\<close>

type_synonym cell = "real option"
type_synonym row = "cell list"
type_synonym table = "row list"
type_synonym series = "cell list"

subsection \<open>Cell arithmetic with NaN propagation\<close>

fun fadd :: "cell \<Rightarrow> cell \<Rightarrow> cell" where
  "fadd (Some a) (Some b) = Some (a + b)"
| "fadd _ _ = None"

fun fsub :: "cell \<Rightarrow> cell \<Rightarrow> cell" where
  "fsub (Some a) (Some b) = Some (a - b)"
| "fsub _ _ = None"

fun fmul :: "cell \<Rightarrow> cell \<Rightarrow> cell" where
  "fmul (Some a) (Some b) = Some (a * b)"
| "fmul _ _ = None"

text \<open>
  Division: \<open>0 / 0\<close> is NaN. A non-zero value divided by zero is an IEEE infinity, which
  this value model does not represent; it is mapped to \<open>None\<close> as well, so the model
  agrees with the code only where no divisor is zero. Every result below whose value
  depends on a quotient assumes that no price is zero; the divisor \<open>n_open\<close> is never
  zero.
\<close>

fun fdiv :: "cell \<Rightarrow> cell \<Rightarrow> cell" where
  "fdiv (Some a) (Some b) = (if b = 0 then None else Some (a / b))"
| "fdiv _ _ = None"

fun fabs :: "cell \<Rightarrow> cell" where
  "fabs (Some a) = Some \<bar>a\<bar>"
| "fabs None = None"

text \<open>Comparisons with NaN are false.\<close>

fun flt :: "cell \<Rightarrow> real \<Rightarrow> bool" where
  "flt (Some a) x = (a < x)"
| "flt None x = False"

fun fgt :: "cell \<Rightarrow> real \<Rightarrow> bool" where
  "fgt (Some a) x = (a > x)"
| "fgt None x = False"

subsection \<open>pandas primitives\<close>

text \<open>\<open>fillna(v)\<close>\<close>

fun fillna_cell :: "real \<Rightarrow> cell \<Rightarrow> cell" where
  "fillna_cell v None = Some v"
| "fillna_cell v (Some a) = Some a"

definition fillna_s :: "real \<Rightarrow> series \<Rightarrow> series" where
  "fillna_s v s = map (fillna_cell v) s"

definition fillna :: "real \<Rightarrow> table \<Rightarrow> table" where
  "fillna v t = map (map (fillna_cell v)) t"

text \<open>\<open>ffill()\<close>: carry the last observed value of each column forward.\<close>

fun ffill_cell :: "cell \<Rightarrow> cell \<Rightarrow> cell" where
  "ffill_cell prev None = prev"
| "ffill_cell prev (Some a) = Some a"

fun ffill_row :: "row \<Rightarrow> row \<Rightarrow> row" where
  "ffill_row (p # ps) (c # cs) = ffill_cell p c # ffill_row ps cs"
| "ffill_row [] cs = cs"
| "ffill_row ps [] = []"

fun ffill_from :: "row \<Rightarrow> table \<Rightarrow> table" where
  "ffill_from prev [] = []"
| "ffill_from prev (r # rs) = ffill_row prev r # ffill_from (ffill_row prev r) rs"

definition ffill :: "table \<Rightarrow> table" where
  "ffill t = ffill_from [] t"

fun ffill_s_from :: "cell \<Rightarrow> series \<Rightarrow> series" where
  "ffill_s_from prev [] = []"
| "ffill_s_from prev (c # cs) = ffill_cell prev c # ffill_s_from (ffill_cell prev c) cs"

definition ffill_s :: "series \<Rightarrow> series" where
  "ffill_s s = ffill_s_from None s"

text \<open>The values of a row that are present (\<open>skipna=True\<close>).\<close>

fun present :: "row \<Rightarrow> real list" where
  "present [] = []"
| "present (None # cs) = present cs"
| "present (Some a # cs) = a # present cs"

text \<open>\<open>dropna(how="all")\<close>: drop the rows in which every cell is missing.\<close>

definition dropna_all :: "table \<Rightarrow> table" where
  "dropna_all t = filter (\<lambda>r. present r \<noteq> []) t"

text \<open>\<open>mean(axis=1)\<close>, \<open>std(axis=1)\<close> (sample, \<open>ddof=1\<close>) and \<open>sum(axis=1)\<close>, all skipping NaN.\<close>

definition row_mean :: "row \<Rightarrow> cell" where
  "row_mean r =
     (let xs = present r
      in if xs = [] then None else Some (sum_list xs / real (length xs)))"

definition row_std :: "row \<Rightarrow> cell" where
  "row_std r =
     (let xs = present r; n = length xs; avg = sum_list xs / real n
      in if n \<le> 1 then None
         else Some (sqrt (sum_list (map (\<lambda>x. (avg - x)\<^sup>2) xs) / real (n - 1))))"

definition row_sum :: "row \<Rightarrow> cell" where
  "row_sum r = Some (sum_list (present r))"

text \<open>\<open>shift(1)\<close>: every row moves one date down; the first row is all NaN.\<close>

definition shift1 :: "table \<Rightarrow> table" where
  "shift1 t = (case t of [] \<Rightarrow> [] | r # rs \<Rightarrow> map (\<lambda>_. None) r # butlast t)"

definition shift1_s :: "series \<Rightarrow> series" where
  "shift1_s s = (case s of [] \<Rightarrow> [] | c # cs \<Rightarrow> None # butlast s)"

text \<open>Cell-wise binary operation on two tables of one shape.\<close>

definition tmap2 :: "(cell \<Rightarrow> cell \<Rightarrow> cell) \<Rightarrow> table \<Rightarrow> table \<Rightarrow> table" where
  "tmap2 f a b = map2 (map2 f) a b"

text \<open>
  \<open>pct_change()\<close> is \<open>data / data.shift(1) - 1\<close>. Up to pandas 2.x the default
  \<open>fill_method='pad'\<close> forward-fills \<open>data\<close> first; from pandas 3.0 nothing is filled.
  The repository pins no version, so the library default is the parameter \<open>pad\<close>.
\<close>

definition pct_cell :: "cell \<Rightarrow> cell \<Rightarrow> cell" where
  "pct_cell c p = fsub (fdiv c p) (Some 1)"

definition pct_change :: "bool \<Rightarrow> table \<Rightarrow> table" where
  "pct_change pad t =
     (let d = (if pad then ffill t else t) in tmap2 pct_cell d (shift1 d))"

definition pct_change_s :: "bool \<Rightarrow> series \<Rightarrow> series" where
  "pct_change_s pad s =
     (let d = (if pad then ffill_s s else s) in map2 pct_cell d (shift1_s d))"

text \<open>\<open>diff()\<close> is \<open>data - data.shift(1)\<close>.\<close>

definition diff1 :: "table \<Rightarrow> table" where
  "diff1 t = tmap2 fsub t (shift1 t)"

text \<open>\<open>cumprod()\<close> on a Series: NaN entries stay NaN and are skipped by the running product.\<close>

fun cumprod_from :: "real \<Rightarrow> series \<Rightarrow> series" where
  "cumprod_from acc [] = []"
| "cumprod_from acc (None # cs) = None # cumprod_from acc cs"
| "cumprod_from acc (Some a # cs) = Some (acc * a) # cumprod_from (acc * a) cs"

definition cumprod :: "series \<Rightarrow> series" where
  "cumprod s = cumprod_from 1 s"

text \<open>\<open>replace(0, 1)\<close> on a Series.\<close>

definition replace01 :: "cell \<Rightarrow> cell" where
  "replace01 c = (if c = Some 0 then Some 1 else c)"

section \<open>Data ingestion\<close>

text \<open>
  \<open>fetch_price_series\<close> after the download: \<open>df\<close> stands for the downloaded frame, given
  by its adjusted-close columns (one per ticker). \<open>df.empty\<close> holds when the frame has no
  row or no column.
\<close>

datatype error = RuntimeError

definition df_empty :: "table \<Rightarrow> bool" where
  "df_empty df = (df = [] \<or> concat df = [])"

definition fetch_price_series :: "string list \<Rightarrow> table \<Rightarrow> error + table" where
  "fetch_price_series tickers df =
     (if df_empty df then Inl RuntimeError
      else if length tickers = 1 then Inr df
      else Inr (dropna_all df))"

section \<open>Signal computation\<close>

definition compute_basket_zscores :: "table \<Rightarrow> table" where
  "compute_basket_zscores price_df =
     (let clean = dropna_all (ffill price_df);
          basket_mean = map row_mean clean;
          basket_std = map row_std clean
      in map2 (\<lambda>r s. map (\<lambda>c. fdiv c s) r)
           (map2 (\<lambda>r m. map (\<lambda>c. fsub c m) r) clean basket_mean) basket_std)"

section \<open>Position generation and backtest\<close>

text \<open>
  \<open>pos = (zscores < entry_thresh).astype(int)\<close>, then \<open>pos[zscores > exit_thresh] = 0\<close>,
  then \<open>pos.ffill().fillna(0)\<close>.
\<close>

definition entry_indicator :: "real \<Rightarrow> cell \<Rightarrow> cell" where
  "entry_indicator entry_thresh z = Some (if flt z entry_thresh then 1 else 0)"

definition exit_mask :: "real \<Rightarrow> cell \<Rightarrow> cell \<Rightarrow> cell" where
  "exit_mask exit_thresh z p = (if fgt z exit_thresh then Some 0 else p)"

definition generate_positions :: "table \<Rightarrow> real \<Rightarrow> real \<Rightarrow> table" where
  "generate_positions zscores entry_thresh exit_thresh =
     (let pos = map (map (entry_indicator entry_thresh)) zscores;
          pos = tmap2 (exit_mask exit_thresh) zscores pos
      in fillna 0 (ffill pos))"

text \<open>The local variables of \<open>backtest\<close>, one definition each.\<close>

definition daily_ret :: "bool \<Rightarrow> table \<Rightarrow> table" where
  "daily_ret pad prices = fillna 0 (pct_change pad prices)"

definition shifted_pos :: "table \<Rightarrow> table" where
  "shifted_pos positions = fillna 0 (shift1 positions)"

definition n_open :: "table \<Rightarrow> series" where
  "n_open positions = map (\<lambda>r. replace01 (row_sum r)) (shifted_pos positions)"

definition strat_gross :: "bool \<Rightarrow> table \<Rightarrow> table \<Rightarrow> series" where
  "strat_gross pad prices positions =
     map2 fdiv (map row_sum (tmap2 fmul (shifted_pos positions) (daily_ret pad prices)))
       (n_open positions)"

definition trades :: "table \<Rightarrow> series" where
  "trades positions = map row_sum (map (map fabs) (diff1 (shifted_pos positions)))"

definition strat_ret :: "bool \<Rightarrow> table \<Rightarrow> table \<Rightarrow> real \<Rightarrow> series" where
  "strat_ret pad prices positions cost_per_trade =
     map2 fsub (strat_gross pad prices positions)
       (map (\<lambda>t. fmul t (Some cost_per_trade)) (trades positions))"

definition strat_cum :: "bool \<Rightarrow> table \<Rightarrow> table \<Rightarrow> real \<Rightarrow> series" where
  "strat_cum pad prices positions cost_per_trade =
     map (\<lambda>c. fsub c (Some 1))
       (cumprod (map (fadd (Some 1)) (strat_ret pad prices positions cost_per_trade)))"

definition backtest :: "bool \<Rightarrow> table \<Rightarrow> table \<Rightarrow> real \<Rightarrow> series \<times> series" where
  "backtest pad prices positions cost_per_trade =
     (strat_ret pad prices positions cost_per_trade,
      strat_cum pad prices positions cost_per_trade)"

section \<open>Main pipeline\<close>

text \<open>
  Steps 2 and 3 of the script, with the default thresholds and cost:
  \<open>zs = compute_basket_zscores(df)\<close>, \<open>pos = generate_positions(zs)\<close>,
  \<open>backtest(df, pos)\<close>, and the benchmark \<open>df.mean(axis=1).pct_change().fillna(0)\<close>.
  In the script the positions have the dates of the gap-filled price table; \<open>pipeline\<close>
  pairs them with the prices by position, which is the code's pairing by date when no
  row is dropped, that is when every gap-filled row holds a price.
\<close>

definition pipeline_positions :: "table \<Rightarrow> table" where
  "pipeline_positions df = generate_positions (compute_basket_zscores df) (- 1) 0"

definition pipeline :: "bool \<Rightarrow> table \<Rightarrow> series \<times> series" where
  "pipeline pad df = backtest pad df (pipeline_positions df) (5 / 10000)"

definition bench_ret :: "bool \<Rightarrow> table \<Rightarrow> series" where
  "bench_ret pad df = fillna_s 0 (pct_change_s pad (map row_mean df))"

definition bench_cum :: "bool \<Rightarrow> table \<Rightarrow> series" where
  "bench_cum pad df =
     map (\<lambda>c. fsub c (Some 1)) (cumprod (map (fadd (Some 1)) (bench_ret pad df)))"

text \<open>
  The benchmark as the specification words it, for comparison with \<open>bench_ret\<close>: the
  cross-sectional mean of the instruments' own period returns, the first date being zero.
\<close>

definition spec_bench_ret :: "bool \<Rightarrow> table \<Rightarrow> series" where
  "spec_bench_ret pad df = fillna_s 0 (map row_mean (pct_change pad df))"

section \<open>Unfolding bundles and arithmetic facts\<close>

lemmas prim_defs = tmap2_def fillna_def fillna_s_def ffill_def ffill_s_def shift1_def
  shift1_s_def pct_change_def pct_change_s_def pct_cell_def diff1_def replace01_def
  row_sum_def row_mean_def row_std_def dropna_all_def cumprod_def Let_def

lemmas backtest_defs = pipeline_def pipeline_positions_def backtest_def strat_ret_def
  strat_cum_def strat_gross_def trades_def n_open_def shifted_pos_def daily_ret_def


lemma sqrt_200: "sqrt 200 = 10 * sqrt 2"
proof -
  have "sqrt 200 = sqrt (100 * 2)" by simp
  also have "\<dots> = sqrt 100 * sqrt 2" by (rule real_sqrt_mult)
  also have "sqrt 100 = 10" by (rule real_sqrt_unique) simp_all
  finally show ?thesis .
qed

lemma sqrt_2_gt_1: "1 < sqrt 2"
  by (rule real_less_rsqrt) simp

section \<open>Position generation: what the code computes\<close>

lemma map2_same: "map2 f xs (map g xs) = map (\<lambda>x. f x (g x)) xs"
  by (induction xs) simp_all

lemma ffill_row_no_nan: "None \<notin> set r \<Longrightarrow> ffill_row p r = r"
proof (induction p r rule: ffill_row.induct)
  case (1 p ps c cs)
  then show ?case by (cases c) simp_all
qed simp_all

lemma ffill_from_no_nan: "\<forall>r\<in>set t. None \<notin> set r \<Longrightarrow> ffill_from p t = t"
  by (induction t arbitrary: p) (simp_all add: ffill_row_no_nan)

lemma fillna_cell_some: "c \<noteq> None \<Longrightarrow> fillna_cell v c = c"
  by (cases c) simp_all

lemma fillna_no_nan: "\<forall>r\<in>set t. None \<notin> set r \<Longrightarrow> fillna v t = t"
  unfolding fillna_def by (intro map_idI) (metis fillna_cell_some)

text \<open>
  The entry indicator is an integer frame without NaN, so the forward fill and the final
  \<open>fillna(0)\<close> change nothing: each position depends on the z-score of its own date only.
\<close>

lemma generate_positions_cellwise:
  "generate_positions z e x =
     map (map (\<lambda>c. Some (if flt c e \<and> \<not> fgt c x then 1 else 0))) z"
proof -
  let ?t = "map (map (\<lambda>c. Some (if flt c e \<and> \<not> fgt c x then 1 else 0 :: real))) z"
  have step: "tmap2 (exit_mask x) z (map (map (entry_indicator e)) z) = ?t"
    unfolding tmap2_def
    by (simp add: map2_same exit_mask_def entry_indicator_def cong: if_cong)
  have nn: "\<forall>r\<in>set ?t. None \<notin> set r" by auto
  show ?thesis
    unfolding generate_positions_def Let_def step ffill_def
    by (simp only: ffill_from_no_nan[OF nn] fillna_no_nan[OF nn])
qed

text \<open>
  C1. With the default thresholds, a z-score column \<open>-2, -1/2\<close> opens a position on the
  first date; on the second date the z-score lies between the thresholds and has not
  exceeded the exit threshold, and the position computed by the code is 0: the state is
  not held.
\<close>

theorem generate_positions_drops_held_state:
  "generate_positions [[Some (- 2)], [Some (- 1 / 2)]] (- 1) 0 = [[Some 1], [Some 0]]"
  by (simp add: generate_positions_cellwise)

text \<open>
  C8. The table returned by \<open>generate_positions\<close> has the shape of the z-score table,
  every cell is the number 0 or the number 1 (never NaN), and a cell whose z-score is
  undefined is 0.
\<close>

theorem generate_positions_binary:
  "length (generate_positions z e x) = length z \<and>
   (\<forall>d < length z. length (generate_positions z e x ! d) = length (z ! d) \<and>
      (\<forall>i < length (z ! d).
         (generate_positions z e x ! d ! i = Some 0 \<or>
          generate_positions z e x ! d ! i = Some 1) \<and>
         (z ! d ! i = None \<longrightarrow> generate_positions z e x ! d ! i = Some 0)))"
  by (simp add: generate_positions_cellwise)

theorem generate_positions_binary_witness:
  "generate_positions [[None, Some (- 2)], [Some 3, None]] (- 1) 0 ! 0 ! 0 = Some 0 \<and>
   (generate_positions [[None, Some (- 2)], [Some 3, None]] (- 1) 0 ! 0 ! 1 = Some 0 \<or>
    generate_positions [[None, Some (- 2)], [Some 3, None]] (- 1) 0 ! 0 ! 1 = Some 1) \<and>
   length (generate_positions [[None, Some (- 2)], [Some 3, None]] (- 1) 0) = 2"
proof -
  let ?z = "[[None, Some (- 2)], [Some 3, None]] :: table"
  note h = generate_positions_binary [of ?z "- 1" 0]
  from h have len: "length (generate_positions ?z (- 1) 0) = 2" by simp
  from h have row: "\<forall>i < length (?z ! 0).
         (generate_positions ?z (- 1) 0 ! 0 ! i = Some 0 \<or>
          generate_positions ?z (- 1) 0 ! 0 ! i = Some 1) \<and>
         (?z ! 0 ! i = None \<longrightarrow> generate_positions ?z (- 1) 0 ! 0 ! i = Some 0)"
    by (metis length_greater_0_conv list.discI)
  from row [rule_format, of 0] have c0: "generate_positions ?z (- 1) 0 ! 0 ! 0 = Some 0"
    by simp
  from row [rule_format, of 1]
  have c1: "generate_positions ?z (- 1) 0 ! 0 ! 1 = Some 0 \<or>
            generate_positions ?z (- 1) 0 ! 0 ! 1 = Some 1"
    by simp
  show ?thesis using len c0 c1 by simp
qed

section \<open>Signal computation: row-wise form, examples\<close>

lemma compute_basket_zscores_rowwise:
  "compute_basket_zscores price_df =
     map (\<lambda>r. map (\<lambda>c. fdiv (fsub c (row_mean r)) (row_std r)) r)
       (dropna_all (ffill price_df))"
proof -
  have a: "map2 (\<lambda>r m. map (\<lambda>c. fsub c m) r) t (map row_mean t)
        = map (\<lambda>r. map (\<lambda>c. fsub c (row_mean r)) r) t" for t
    by (rule map2_same)
  have b: "map2 (\<lambda>r s. map (\<lambda>c. fdiv c s) r) (map g t) (map row_std t)
        = map (\<lambda>r. map (\<lambda>c. fdiv c (row_std r)) (g r)) t" for t and g :: "row \<Rightarrow> row"
    by (induction t) simp_all
  show ?thesis
    unfolding compute_basket_zscores_def Let_def a b by (simp add: comp_def)
qed

lemma present_Cons_empty: "present (c # cs) = [] \<longleftrightarrow> c = None \<and> present cs = []"
  by (cases c) simp_all

lemma ffill_row_all_nan:
  "present p = [] \<Longrightarrow> present r = [] \<Longrightarrow> present (ffill_row p r) = []"
proof (induction p r rule: ffill_row.induct)
  case (1 p ps c cs)
  then show ?case by (simp add: present_Cons_empty)
qed simp_all

lemma ffill_from_all_nan:
  "present p = [] \<Longrightarrow> \<forall>r\<in>set t. present r = [] \<Longrightarrow>
   \<forall>r\<in>set (ffill_from p t). present r = []"
proof (induction t arbitrary: p)
  case Nil then show ?case by simp
next
  case (Cons r t)
  from Cons.prems have a: "present (ffill_row p r) = []"
    by (simp add: ffill_row_all_nan)
  from Cons.prems have b: "\<forall>r\<in>set t. present r = []" by simp
  from Cons.IH[OF a b] a show ?case by simp
qed

lemma zscores_example:
  "compute_basket_zscores
     [[Some 90, Some 110], [Some 100, Some 100], [Some 110, Some 90]]
   = [[Some (- 1 / sqrt 2), Some (1 / sqrt 2)], [None, None],
      [Some (1 / sqrt 2), Some (- 1 / sqrt 2)]]"
  by (simp add: compute_basket_zscores_def prim_defs power2_eq_square sqrt_200)

text \<open>
  C5, as stated, fails: for A = 90, 100, 110 and B = 110, 100, 90 the z-scores are
  \<open>-1\<close> and \<open>+1\<close> on none of the three dates.
\<close>

theorem zscores_example_not_unit:
  "compute_basket_zscores
     [[Some 90, Some 110], [Some 100, Some 100], [Some 110, Some 90]] ! 0
     \<noteq> [Some (- 1), Some 1] \<and>
   compute_basket_zscores
     [[Some 90, Some 110], [Some 100, Some 100], [Some 110, Some 90]] ! 1
     \<noteq> [Some (- 1), Some 1] \<and>
   compute_basket_zscores
     [[Some 90, Some 110], [Some 100, Some 100], [Some 110, Some 90]] ! 2
     \<noteq> [Some (- 1), Some 1]"
proof -
  have "0 < 1 / sqrt 2" by simp
  then have "1 / sqrt 2 \<noteq> - 1" by linarith
  with sqrt_2_gt_1 show ?thesis by (simp add: zscores_example)
qed

text \<open>
  C5, amended. On the first date the cross-sectional mean is 100 and the sample standard
  deviation is \<open>10 * sqrt 2\<close> (about 14.14), so the z-scores are \<open>-1 / sqrt 2\<close> for A and
  \<open>1 / sqrt 2\<close> for B (about -0.7071 and 0.7071). Neither is below the entry threshold
  \<open>-1\<close>, and both positions on that date are 0. The comparison with the entry threshold
  is strict: a z-score of exactly \<open>-1\<close> opens no position.
\<close>

theorem zscores_example_first_date:
  "row_mean [Some 90, Some 110] = Some 100 \<and>
   row_std [Some 90, Some 110] = Some (10 * sqrt 2) \<and>
   compute_basket_zscores
     [[Some 90, Some 110], [Some 100, Some 100], [Some 110, Some 90]] ! 0
     = [Some (- 1 / sqrt 2), Some (1 / sqrt 2)] \<and>
   generate_positions
     (compute_basket_zscores
        [[Some 90, Some 110], [Some 100, Some 100], [Some 110, Some 90]]) (- 1) 0 ! 0
     = [Some 0, Some 0] \<and>
   generate_positions [[Some (- 1)]] (- 1) 0 = [[Some 0]]"
proof -
  have m: "row_mean [Some 90, Some 110] = Some 100"
    by (simp add: row_mean_def)
  have sd: "row_std [Some 90, Some 110] = Some (10 * sqrt 2)"
    by (simp add: row_std_def power2_eq_square sqrt_200)
  have lt: "\<not> - 1 / sqrt 2 < - 1"
    using sqrt_2_gt_1 by (simp add: divide_less_eq)
  have pos: "generate_positions
     (compute_basket_zscores
        [[Some 90, Some 110], [Some 100, Some 100], [Some 110, Some 90]]) (- 1) 0 ! 0
     = [Some 0, Some 0]"
    using lt by (simp add: zscores_example generate_positions_cellwise)
  have strict: "generate_positions [[Some (- 1)]] (- 1) 0 = [[Some 0]]"
    by (simp add: generate_positions_cellwise)
  from m sd pos strict show ?thesis by (simp add: zscores_example)
qed

text \<open>
  Two instruments priced 100 on two dates: mean 100, every deviation 0, standard
  deviation 0, every z-score \<open>0 / 0\<close>; no position is opened and the strategy return is
  0 on both dates. All values of this run are exact in doubles as well.
\<close>

lemma flat_prices_example:
  "compute_basket_zscores [[Some 100, Some 100], [Some 100, Some 100]]
     = [[None, None], [None, None]] \<and>
   pipeline_positions [[Some 100, Some 100], [Some 100, Some 100]]
     = [[Some 0, Some 0], [Some 0, Some 0]] \<and>
   fst (pipeline pad [[Some 100, Some 100], [Some 100, Some 100]]) = [Some 0, Some 0]"
  by (simp add: backtest_defs generate_positions_cellwise compute_basket_zscores_def
      prim_defs)

section \<open>Empty input\<close>

lemma compute_basket_zscores_all_missing:
  "(\<forall>r\<in>set price_df. present r = []) \<Longrightarrow> compute_basket_zscores price_df = []"
proof -
  assume "\<forall>r\<in>set price_df. present r = []"
  then have "\<forall>r\<in>set (ffill price_df). present r = []"
    unfolding ffill_def by (intro ffill_from_all_nan) simp_all
  then have "dropna_all (ffill price_df) = []" by (simp add: dropna_all_def)
  then show ?thesis by (simp add: compute_basket_zscores_rowwise)
qed

text \<open>
  C4. A price table with no usable row after gap-filling should make the signal
  computation fail with an error, as \<open>fetch_price_series\<close> does for an empty download.
  The code does not: for the table without rows and for the table of two instruments
  and two dates with every price missing, \<open>compute_basket_zscores\<close> returns the empty
  table, the result its docstring says never occurs. The ingestion step raises on the empty
  frame only; for two tickers it hands the all-missing download on as an empty table.
\<close>

theorem no_usable_rows_returns_empty:
  "compute_basket_zscores [] = [] \<and>
   compute_basket_zscores [[None, None], [None, None]] = [] \<and>
   fetch_price_series [''RY.TO'', ''TD.TO''] [] = Inl RuntimeError \<and>
   fetch_price_series [''RY.TO'', ''TD.TO''] [[None, None], [None, None]] = Inr []"
  by (simp add: compute_basket_zscores_def fetch_price_series_def df_empty_def prim_defs)

lemma fetch_price_series_raises_on_empty:
  "df_empty df \<Longrightarrow> fetch_price_series tickers df = Inl RuntimeError"
  by (simp add: fetch_price_series_def)

section \<open>Benchmark\<close>

lemma ffill_s_from_length: "length (ffill_s_from p s) = length s"
  by (induction s arbitrary: p) simp_all

lemma ffill_s_from_nth_some:
  "d < length s \<Longrightarrow> s ! d = Some v \<Longrightarrow> ffill_s_from p s ! d = Some v"
proof (induction s arbitrary: p d)
  case Nil then show ?case by simp
next
  case (Cons c s)
  then show ?case by (cases d) simp_all
qed

lemma shift1_s_take: "shift1_s s = take (length s) (None # s)"
  by (cases s) (simp_all add: shift1_s_def butlast_conv_take del: butlast.simps)

lemma shift1_s_length: "length (shift1_s s) = length s"
  by (simp add: shift1_s_take)

lemma shift1_s_nth_Suc: "Suc d < length s \<Longrightarrow> shift1_s s ! Suc d = s ! d"
  by (simp add: shift1_s_take)

lemma shift1_s_nth_0: "s \<noteq> [] \<Longrightarrow> shift1_s s ! 0 = None"
  by (cases s) (simp_all add: shift1_s_def)

lemma map2_nth:
  "i < length xs \<Longrightarrow> i < length ys \<Longrightarrow> map2 f xs ys ! i = f (xs ! i) (ys ! i)"
  by simp

lemma pct_change_s_length: "length (pct_change_s pad s) = length s"
  by (simp add: pct_change_s_def Let_def shift1_s_length ffill_s_def ffill_s_from_length)

lemma pct_change_s_nth_0: "s \<noteq> [] \<Longrightarrow> pct_change_s pad s ! 0 = None"
proof -
  assume s: "s \<noteq> []"
  define dd where "dd = (if pad then ffill_s s else s)"
  from s have ne: "dd \<noteq> []" by (cases s) (simp_all add: dd_def ffill_s_def)
  then have "map2 pct_cell dd (shift1_s dd) ! 0 = pct_cell (dd ! 0) (shift1_s dd ! 0)"
    by (intro map2_nth) (simp_all add: shift1_s_length)
  also have "\<dots> = None" using ne by (simp add: shift1_s_nth_0 pct_cell_def)
  finally show ?thesis by (simp only: pct_change_s_def Let_def dd_def)
qed

lemma pct_change_s_nth_Suc:
  assumes "Suc d < length s" "s ! d = Some a" "s ! Suc d = Some b"
  shows "pct_change_s pad s ! Suc d = pct_cell (Some b) (Some a)"
proof -
  define dd where "dd = (if pad then ffill_s s else s)"
  have len: "length dd = length s" by (simp add: dd_def ffill_s_def ffill_s_from_length)
  from assms have a: "dd ! d = Some a" and b: "dd ! Suc d = Some b"
    by (simp_all add: dd_def ffill_s_def ffill_s_from_nth_some)
  have "map2 pct_cell dd (shift1_s dd) ! Suc d = pct_cell (dd ! Suc d) (shift1_s dd ! Suc d)"
    using assms(1) len by (intro map2_nth) (simp_all add: shift1_s_length)
  also have "shift1_s dd ! Suc d = dd ! d" using assms(1) len by (simp add: shift1_s_nth_Suc)
  finally have "map2 pct_cell dd (shift1_s dd) ! Suc d = pct_cell (Some b) (Some a)"
    using a b by simp
  then show ?thesis by (simp only: pct_change_s_def Let_def dd_def)
qed

text \<open>
  C3, as stated, fails: with A going from 100 to 200 and B staying at 300, the mean of
  the two instrument returns is 1/2, while the benchmark return of the code is 1/4.
\<close>

theorem bench_ret_not_mean_of_returns:
  "bench_ret True [[Some 100, Some 300], [Some 200, Some 300]] = [Some 0, Some (1 / 4)] \<and>
   spec_bench_ret True [[Some 100, Some 300], [Some 200, Some 300]] = [Some 0, Some (1 / 2)] \<and>
   bench_ret False [[Some 100, Some 300], [Some 200, Some 300]] = [Some 0, Some (1 / 4)] \<and>
   spec_bench_ret False [[Some 100, Some 300], [Some 200, Some 300]] = [Some 0, Some (1 / 2)]"
  by (simp add: bench_ret_def spec_bench_ret_def prim_defs)

text \<open>
  C3, amended. The benchmark period return is the period-over-period percentage change
  of the equal-weighted cross-sectional mean price (the mean over the instruments with
  a price on the date): 0 on the first date, and \<open>m1 / m0 - 1\<close> on a later date whose
  mean price is \<open>m1\<close> and whose previous date has the non-zero mean price \<open>m0\<close>.
\<close>

theorem bench_ret_is_change_of_mean_price:
  "(df \<noteq> [] \<longrightarrow> bench_ret pad df ! 0 = Some 0) \<and>
   (Suc d < length df \<and> row_mean (df ! d) = Some m0 \<and>
    row_mean (df ! Suc d) = Some m1 \<and> m0 \<noteq> 0
      \<longrightarrow> bench_ret pad df ! Suc d = Some (m1 / m0 - 1))"
proof (intro conjI impI)
  assume "df \<noteq> []"
  then show "bench_ret pad df ! 0 = Some 0"
    by (simp add: bench_ret_def fillna_s_def pct_change_s_length pct_change_s_nth_0)
next
  assume h: "Suc d < length df \<and> row_mean (df ! d) = Some m0 \<and>
    row_mean (df ! Suc d) = Some m1 \<and> m0 \<noteq> 0"
  then have "pct_change_s pad (map row_mean df) ! Suc d = pct_cell (Some m1) (Some m0)"
    by (intro pct_change_s_nth_Suc) simp_all
  with h show "bench_ret pad df ! Suc d = Some (m1 / m0 - 1)"
    by (simp add: bench_ret_def fillna_s_def pct_change_s_length pct_cell_def)
qed

theorem bench_ret_is_change_of_mean_price_witness:
  "bench_ret True [[Some 100, Some 300], [Some 240, Some 360]] ! 0 = Some 0 \<and>
   bench_ret True [[Some 100, Some 300], [Some 240, Some 360]] ! Suc 0 = Some (300 / 200 - 1)"
  using bench_ret_is_change_of_mean_price
    [of "[[Some 100, Some 300], [Some 240, Some 360]]" True 0 200 300]
  by (simp add: row_mean_def)

section \<open>Backtest: shapes and rows\<close>

lemma shift1_take: "shift1 t = take (length t) (map (\<lambda>_. None) (hd t) # t)"
  by (cases t) (simp_all add: shift1_def butlast_conv_take del: butlast.simps)

lemma shift1_length: "length (shift1 t) = length t"
  by (simp add: shift1_take)

lemma shift1_nth_0: "t \<noteq> [] \<Longrightarrow> shift1 t ! 0 = map (\<lambda>_. None) (t ! 0)"
  by (cases t) (simp_all add: shift1_def)

lemma shift1_nth_Suc: "Suc d < length t \<Longrightarrow> shift1 t ! Suc d = t ! d"
  by (simp add: shift1_take)

lemma fillna_length: "length (fillna v t) = length t"
  by (simp add: fillna_def)

lemma fillna_nth: "d < length t \<Longrightarrow> fillna v t ! d = map (fillna_cell v) (t ! d)"
  by (simp add: fillna_def)

lemma fillna_cell_not_nan: "fillna_cell v c \<noteq> None"
  by (cases c) simp_all

lemma fillna_row_no_nan: "None \<notin> set (map (fillna_cell v) r)"
  by (induction r) (simp_all add: fillna_cell_not_nan[symmetric])

lemma tmap2_length: "length (tmap2 f a b) = min (length a) (length b)"
  by (simp add: tmap2_def)

lemma tmap2_nth:
  "d < length a \<Longrightarrow> d < length b \<Longrightarrow> tmap2 f a b ! d = map2 f (a ! d) (b ! d)"
  by (simp add: tmap2_def)

lemma ffill_row_length: "length (ffill_row p r) = length r"
  by (induction p r rule: ffill_row.induct) simp_all

lemma ffill_from_length: "length (ffill_from p t) = length t"
  by (induction t arbitrary: p) simp_all

lemma ffill_length: "length (ffill t) = length t"
  by (simp add: ffill_def ffill_from_length)

lemma ffill_nth_0: "t \<noteq> [] \<Longrightarrow> ffill t ! 0 = t ! 0"
  by (cases t) (simp_all add: ffill_def)

lemma pct_cell_nan: "pct_cell c None = None" "pct_cell None c = None"
  by (simp_all add: pct_cell_def)

lemma pct_change_length: "length (pct_change pad t) = length t"
  by (simp add: pct_change_def Let_def tmap2_length shift1_length ffill_length)

lemma pct_change_nth_0: "t \<noteq> [] \<Longrightarrow> pct_change pad t ! 0 = map (\<lambda>_. None) (t ! 0)"
proof -
  assume t: "t \<noteq> []"
  define dd where "dd = (if pad then ffill t else t)"
  from t have "length dd = length t" by (simp add: dd_def ffill_length)
  with t have ne: "dd \<noteq> []" by auto
  from t have d0: "dd ! 0 = t ! 0" by (simp add: dd_def ffill_nth_0)
  from ne have "tmap2 pct_cell dd (shift1 dd) ! 0 = map2 pct_cell (dd ! 0) (shift1 dd ! 0)"
    by (intro tmap2_nth) (simp_all add: shift1_length)
  also have "\<dots> = map (\<lambda>c. pct_cell c None) (dd ! 0)"
    using ne by (simp add: shift1_nth_0 map2_same del: map_map)
  also have "\<dots> = map (\<lambda>_. None) (t ! 0)" by (simp add: pct_cell_nan d0)
  finally show ?thesis by (simp only: pct_change_def Let_def dd_def)
qed

lemma daily_ret_length: "length (daily_ret pad prices) = length prices"
  by (simp add: daily_ret_def fillna_length pct_change_length)

lemma daily_ret_nth_0:
  "prices \<noteq> [] \<Longrightarrow> daily_ret pad prices ! 0 = map (\<lambda>_. Some 0) (prices ! 0)"
  by (simp add: daily_ret_def fillna_nth pct_change_length pct_change_nth_0)

lemma daily_ret_no_nan: "d < length prices \<Longrightarrow> None \<notin> set (daily_ret pad prices ! d)"
  by (simp add: daily_ret_def fillna_nth pct_change_length fillna_row_no_nan del: set_map)

lemma shifted_pos_length: "length (shifted_pos positions) = length positions"
  by (simp add: shifted_pos_def fillna_length shift1_length)

lemma shifted_pos_nth_0:
  "positions \<noteq> [] \<Longrightarrow> shifted_pos positions ! 0 = map (\<lambda>_. Some 0) (positions ! 0)"
  by (simp add: shifted_pos_def fillna_nth shift1_length shift1_nth_0)

lemma shifted_pos_nth_Suc:
  "Suc d < length positions \<Longrightarrow>
   shifted_pos positions ! Suc d = map (fillna_cell 0) (positions ! d)"
  by (simp add: shifted_pos_def fillna_nth shift1_length shift1_nth_Suc)

lemma n_open_length: "length (n_open positions) = length positions"
  by (simp add: n_open_def shifted_pos_length)

lemma n_open_nth:
  "d < length positions \<Longrightarrow>
   n_open positions ! d = replace01 (row_sum (shifted_pos positions ! d))"
  by (simp add: n_open_def shifted_pos_length)

lemma strat_gross_length:
  "length (strat_gross pad prices positions) = min (length positions) (length prices)"
  by (simp add: strat_gross_def tmap2_length shifted_pos_length daily_ret_length n_open_length)

lemma strat_gross_nth:
  "d < length positions \<Longrightarrow> d < length prices \<Longrightarrow>
   strat_gross pad prices positions ! d =
     fdiv (row_sum (map2 fmul (shifted_pos positions ! d) (daily_ret pad prices ! d)))
       (n_open positions ! d)"
proof -
  assume d: "d < length positions" "d < length prices"
  let ?g = "map row_sum (tmap2 fmul (shifted_pos positions) (daily_ret pad prices))"
  have "map2 fdiv ?g (n_open positions) ! d = fdiv (?g ! d) (n_open positions ! d)"
    using d by (intro map2_nth)
      (simp_all add: tmap2_length shifted_pos_length daily_ret_length n_open_length)
  moreover have "?g ! d = row_sum (map2 fmul (shifted_pos positions ! d) (daily_ret pad prices ! d))"
    using d by (simp add: tmap2_length tmap2_nth shifted_pos_length daily_ret_length)
  ultimately show ?thesis by (simp only: strat_gross_def)
qed

lemma trades_length: "length (trades positions) = length positions"
  by (simp add: trades_def diff1_def tmap2_length shift1_length shifted_pos_length)

lemma trades_nth:
  "d < length positions \<Longrightarrow>
   trades positions ! d =
     row_sum (map fabs (map2 fsub (shifted_pos positions ! d)
        (shift1 (shifted_pos positions) ! d)))"
  by (simp add: trades_def diff1_def tmap2_length tmap2_nth shift1_length shifted_pos_length)

lemma strat_ret_length:
  "length (strat_ret pad prices positions cost) = min (length positions) (length prices)"
  by (simp add: strat_ret_def strat_gross_length trades_length)

lemma strat_ret_nth:
  "d < length positions \<Longrightarrow> d < length prices \<Longrightarrow>
   strat_ret pad prices positions cost ! d =
     fsub (strat_gross pad prices positions ! d) (fmul (trades positions ! d) (Some cost))"
proof -
  assume d: "d < length positions" "d < length prices"
  let ?c = "map (\<lambda>t. fmul t (Some cost)) (trades positions)"
  have "map2 fsub (strat_gross pad prices positions) ?c ! d
      = fsub (strat_gross pad prices positions ! d) (?c ! d)"
    using d by (intro map2_nth) (simp_all add: strat_gross_length trades_length)
  moreover have "?c ! d = fmul (trades positions ! d) (Some cost)"
    using d by (simp add: trades_length)
  ultimately show ?thesis by (simp only: strat_ret_def)
qed

lemma cumprod_from_length: "length (cumprod_from a s) = length s"
  by (induction a s rule: cumprod_from.induct) simp_all

lemma strat_cum_length:
  "length (strat_cum pad prices positions cost) = min (length positions) (length prices)"
  by (simp add: strat_cum_def cumprod_def cumprod_from_length strat_ret_length)

lemma row_sum_zero: "\<forall>c\<in>set r. c = None \<or> c = Some 0 \<Longrightarrow> row_sum r = Some 0"
proof -
  assume "\<forall>c\<in>set r. c = None \<or> c = Some 0"
  then have "sum_list (present r) = 0"
    by (induction r rule: present.induct) simp_all
  then show ?thesis by (simp add: row_sum_def)
qed

lemma map2_fmul_zero:
  assumes "\<forall>c\<in>set a. c = Some 0" and "None \<notin> set b"
  shows "\<forall>c\<in>set (map2 fmul a b). c = None \<or> c = Some 0"
proof
  fix c assume "c \<in> set (map2 fmul a b)"
  then obtain x y where xy: "(x, y) \<in> set (zip a b)" and c: "c = fmul x y" by auto
  from xy have "x \<in> set a" and "y \<in> set b" by (auto dest: set_zip_leftD set_zip_rightD)
  with assms obtain v where "x = Some 0" "y = Some v" by (cases y) auto
  with c show "c = None \<or> c = Some 0" by simp
qed

lemma map2_fsub_nan: "map2 fsub r (map (\<lambda>_. None) r) = map (\<lambda>_. None) r"
  by (simp add: map2_same del: map_map)

section \<open>Backtest: first date and divisor\<close>

lemma row_sum_all_zero: "row_sum (map (\<lambda>_. Some 0) r) = Some 0"
  by (rule row_sum_zero) auto

lemma n_open_nth_0: "positions \<noteq> [] \<Longrightarrow> n_open positions ! 0 = Some 1"
  by (simp add: n_open_nth shifted_pos_nth_0 row_sum_all_zero replace01_def)

lemma trades_nth_0: "positions \<noteq> [] \<Longrightarrow> trades positions ! 0 = Some 0"
proof -
  assume ne: "positions \<noteq> []"
  then have sp: "shifted_pos positions \<noteq> []"
    using shifted_pos_length[of positions] by auto
  have "trades positions ! 0 =
     row_sum (map fabs (map2 fsub (shifted_pos positions ! 0)
        (shift1 (shifted_pos positions) ! 0)))"
    using ne by (intro trades_nth) simp
  also have "\<dots> = row_sum (map fabs (map (\<lambda>_. None) (shifted_pos positions ! 0)))"
    by (simp only: shift1_nth_0[OF sp] map2_fsub_nan)
  also have "\<dots> = Some 0" by (rule row_sum_zero) auto
  finally show ?thesis .
qed

lemma strat_gross_nth_0:
  assumes "prices \<noteq> []" "positions \<noteq> []"
  shows "strat_gross pad prices positions ! 0 = Some 0"
proof -
  have z: "\<forall>c\<in>set (shifted_pos positions ! 0). c = Some 0"
    using assms by (simp add: shifted_pos_nth_0)
  have nn: "None \<notin> set (daily_ret pad prices ! 0)"
    using assms by (intro daily_ret_no_nan) simp
  have "row_sum (map2 fmul (shifted_pos positions ! 0) (daily_ret pad prices ! 0)) = Some 0"
    by (intro row_sum_zero map2_fmul_zero z nn)
  then show ?thesis using assms by (simp add: strat_gross_nth n_open_nth_0)
qed

text \<open>
  C9. For non-empty prices and positions over the same dates, on the first date every
  instrument's period return is 0, the turnover is 0, the net strategy return is 0 and
  the cumulative return is 0.
\<close>

theorem backtest_first_date:
  assumes "prices \<noteq> []" and "length positions = length prices"
  shows "daily_ret pad prices ! 0 = map (\<lambda>_. Some 0) (prices ! 0) \<and>
         trades positions ! 0 = Some 0 \<and>
         fst (backtest pad prices positions cost_per_trade) ! 0 = Some 0 \<and>
         snd (backtest pad prices positions cost_per_trade) ! 0 = Some 0"
proof -
  from assms have ne: "positions \<noteq> []" by auto
  have r: "strat_ret pad prices positions cost_per_trade ! 0 = Some 0"
    using assms ne by (simp add: strat_ret_nth strat_gross_nth_0 trades_nth_0)
  have len: "0 < length (strat_ret pad prices positions cost_per_trade)"
    using assms ne by (simp add: strat_ret_length)
  then obtain x xs where xs: "strat_ret pad prices positions cost_per_trade = x # xs"
    by (cases "strat_ret pad prices positions cost_per_trade") auto
  with r have "x = Some 0" by simp
  with xs have c: "strat_cum pad prices positions cost_per_trade ! 0 = Some 0"
    by (simp add: strat_cum_def cumprod_def)
  from r c assms show ?thesis
    by (simp add: backtest_def daily_ret_nth_0 trades_nth_0 ne)
qed

theorem backtest_first_date_witness:
  "daily_ret True [[Some 100, Some 50], [Some 110, Some 40]] ! 0 = [Some 0, Some 0] \<and>
   trades [[Some 1, Some 0], [Some 0, Some 1]] ! 0 = Some 0 \<and>
   fst (backtest True [[Some 100, Some 50], [Some 110, Some 40]]
          [[Some 1, Some 0], [Some 0, Some 1]] (5 / 10000)) ! 0 = Some 0 \<and>
   snd (backtest True [[Some 100, Some 50], [Some 110, Some 40]]
          [[Some 1, Some 0], [Some 0, Some 1]] (5 / 10000)) ! 0 = Some 0"
proof -
  let ?p = "[[Some 100, Some 50], [Some 110, Some 40]] :: table"
  let ?q = "[[Some 1, Some 0], [Some 0, Some 1]] :: table"
  have a: "?p \<noteq> []" and b: "length ?q = length ?p" by simp_all
  from backtest_first_date [OF a b, of True "5 / 10000"] show ?thesis by simp
qed

lemma shifted_pos_indicator:
  assumes "\<forall>r\<in>set positions. \<forall>c\<in>set r. c = Some 0 \<or> c = Some 1" "d < length positions"
  shows "\<forall>c\<in>set (shifted_pos positions ! d). c = Some 0 \<or> c = Some 1"
proof (cases d)
  case 0
  with assms show ?thesis by (simp add: shifted_pos_nth_0)
next
  case (Suc k)
  with assms(2) have "positions ! k \<in> set positions" by simp
  with assms(1) have "\<forall>c\<in>set (positions ! k). c = Some 0 \<or> c = Some 1" by blast
  then have "\<forall>c\<in>set (map (fillna_cell 0) (positions ! k)). c = Some 0 \<or> c = Some 1" by auto
  with Suc assms(2) show ?thesis by (simp only: shifted_pos_nth_Suc)
qed

lemma indicator_sum_zero:
  "\<forall>c\<in>set r. c = Some 0 \<or> c = Some 1 \<Longrightarrow> sum_list (present r) = 0 \<Longrightarrow> \<forall>c\<in>set r. c = Some 0"
proof (induction r rule: present.induct)
  case 1
  then show ?case by simp
next
  case (2 cs)
  then show ?case by simp
next
  case (3 a cs)
  then have nn: "\<forall>c\<in>set cs. c = Some 0 \<or> c = Some 1" by simp
  then have "0 \<le> sum_list (present cs)"
    by (induction cs rule: present.induct) auto
  moreover from 3 have "a = 0 \<or> a = 1" by simp
  moreover from 3 have "a + sum_list (present cs) = 0" by simp
  ultimately have "a = 0" and "sum_list (present cs) = 0" by auto
  with 3 nn show ?case by simp
qed

lemma fillna_indicator_row:
  "\<forall>c\<in>set r. c = Some 0 \<or> c = Some 1 \<Longrightarrow> map (fillna_cell 0) r = r"
  by (induction r) auto

lemma shifted_pos_row:
  assumes "\<forall>r\<in>set positions. \<forall>c\<in>set r. c = Some 0 \<or> c = Some 1" "d < length positions"
  shows "shifted_pos positions ! d =
           (if d = 0 then map (\<lambda>_. Some 0) (positions ! 0) else positions ! (d - 1))"
proof (cases d)
  case 0
  with assms show ?thesis by (simp add: shifted_pos_nth_0)
next
  case (Suc k)
  with assms(2) have "positions ! k \<in> set positions" by simp
  with assms(1) have "\<forall>c\<in>set (positions ! k). c = Some 0 \<or> c = Some 1" by blast
  then have "map (fillna_cell 0) (positions ! k) = positions ! k" by (rule fillna_indicator_row)
  with Suc assms(2) show ?thesis by (simp add: shifted_pos_nth_Suc)
qed

lemma present_all_zero: "present (map (\<lambda>_. Some 0) r) = map (\<lambda>_. 0) r"
  by (induction r) simp_all

lemma sum_list_all_zero: "sum_list (map (\<lambda>_. 0 :: real) r) = 0"
  by (induction r) simp_all

text \<open>
  C7. For a 0/1 position table over the dates of the prices, the lagged positions of a
  date are the positions of the date before (all flat on the first date), and the
  divisor \<open>n_open\<close> is their sum across instruments, with 1 in place of a zero sum. It
  is a number other than 0, so the gross return is a quotient by a non-zero divisor
  (given as that quotient for prices without a zero). When the sum is zero, no lagged
  position being open, the gross strategy return is exactly 0.
\<close>

theorem n_open_divisor:
  assumes "length prices = length positions"
    and "\<forall>r\<in>set positions. \<forall>c\<in>set r. c = Some 0 \<or> c = Some 1"
    and "d < length positions"
  shows "shifted_pos positions ! d =
           (if d = 0 then map (\<lambda>_. Some 0) (positions ! 0) else positions ! (d - 1)) \<and>
         n_open positions ! d =
           Some (if d = 0 \<or> sum_list (present (positions ! (d - 1))) = 0 then 1
                 else sum_list (present (positions ! (d - 1)))) \<and>
         n_open positions ! d \<noteq> Some 0 \<and> n_open positions ! d \<noteq> None \<and>
         ((\<forall>r\<in>set prices. Some 0 \<notin> set r) \<longrightarrow>
            (\<exists>n. n \<noteq> 0 \<and> n_open positions ! d = Some n \<and>
               strat_gross pad prices positions ! d =
                 Some (sum_list (present (map2 fmul (shifted_pos positions ! d)
                         (daily_ret pad prices ! d))) / n))) \<and>
         (d = 0 \<or> sum_list (present (positions ! (d - 1))) = 0 \<longrightarrow>
            strat_gross pad prices positions ! d = Some 0)"
proof -
  let ?s = "sum_list (present (shifted_pos positions ! d))"
  let ?n = "if ?s = 0 then 1 else ?s"
  have row: "shifted_pos positions ! d =
           (if d = 0 then map (\<lambda>_. Some 0) (positions ! 0) else positions ! (d - 1))"
    using assms(2,3) by (rule shifted_pos_row)
  have s: "?s = (if d = 0 then 0 else sum_list (present (positions ! (d - 1))))"
    by (simp add: row present_all_zero sum_list_all_zero)
  have n: "n_open positions ! d = Some ?n"
    using assms(3) by (simp add: n_open_nth row_sum_def replace01_def)
  have nz: "?n \<noteq> 0" by simp
  have n': "n_open positions ! d =
           Some (if d = 0 \<or> sum_list (present (positions ! (d - 1))) = 0 then 1
                 else sum_list (present (positions ! (d - 1))))"
    unfolding n s by simp
  have g: "strat_gross pad prices positions ! d =
      fdiv (row_sum (map2 fmul (shifted_pos positions ! d) (daily_ret pad prices ! d)))
        (Some ?n)"
    using assms(1,3) by (simp only: strat_gross_nth n)
  then have g': "strat_gross pad prices positions ! d =
      Some (sum_list (present (map2 fmul (shifted_pos positions ! d)
                      (daily_ret pad prices ! d))) / ?n)"
    using nz by (simp add: row_sum_def)
  have zero: "strat_gross pad prices positions ! d = Some 0"
    if "d = 0 \<or> sum_list (present (positions ! (d - 1))) = 0"
  proof -
    from that s have s0: "?s = 0" by auto
    from shifted_pos_indicator[OF assms(2,3)] s0
    have z: "\<forall>c\<in>set (shifted_pos positions ! d). c = Some 0"
      by (rule indicator_sum_zero)
    have nn: "None \<notin> set (daily_ret pad prices ! d)"
      using assms(1,3) by (intro daily_ret_no_nan) simp
    have "row_sum (map2 fmul (shifted_pos positions ! d) (daily_ret pad prices ! d)) = Some 0"
      by (intro row_sum_zero map2_fmul_zero z nn)
    with g s0 show ?thesis by simp
  qed
  from n nz have ne: "n_open positions ! d \<noteq> Some 0 \<and> n_open positions ! d \<noteq> None" by simp
  from n nz g' have ex: "\<exists>n. n \<noteq> 0 \<and> n_open positions ! d = Some n \<and>
               strat_gross pad prices positions ! d =
                 Some (sum_list (present (map2 fmul (shifted_pos positions ! d)
                         (daily_ret pad prices ! d))) / n)" by blast
  from row n' ne ex zero show ?thesis by blast
qed

theorem n_open_divisor_witness:
  "n_open [[Some 0, Some 0], [Some 1, Some 1], [Some 1, Some 1]] ! 1 = Some 1 \<and>
   strat_gross False [[Some 100, Some 50], [Some 110, Some 40], [Some 121, Some 44]]
     [[Some 0, Some 0], [Some 1, Some 1], [Some 1, Some 1]] ! 1 = Some 0 \<and>
   shifted_pos [[Some 0, Some 0], [Some 1, Some 1], [Some 1, Some 1]] ! 2 = [Some 1, Some 1] \<and>
   n_open [[Some 0, Some 0], [Some 1, Some 1], [Some 1, Some 1]] ! 2 = Some 2 \<and>
   strat_gross False [[Some 100, Some 50], [Some 110, Some 40], [Some 121, Some 44]]
     [[Some 0, Some 0], [Some 1, Some 1], [Some 1, Some 1]] ! 2 = Some (1 / 10)"
proof -
  let ?p = "[[Some 100, Some 50], [Some 110, Some 40], [Some 121, Some 44]] :: table"
  let ?q = "[[Some 0, Some 0], [Some 1, Some 1], [Some 1, Some 1]] :: table"
  have a: "length ?p = length ?q" by simp
  have b: "\<forall>r\<in>set ?q. \<forall>c\<in>set r. c = Some 0 \<or> c = Some 1" by simp
  have c1: "1 < length ?q" and c2: "2 < length ?q" by simp_all
  from n_open_divisor [OF a b c1, of False]
  have d1: "n_open ?q ! 1 = Some 1 \<and> strat_gross False ?p ?q ! 1 = Some 0" by simp
  from n_open_divisor [OF a b c2, of False]
  have d2: "shifted_pos ?q ! 2 = [Some 1, Some 1] \<and> n_open ?q ! 2 = Some 2" by simp
  have nz: "\<forall>r\<in>set ?p. Some 0 \<notin> set r" by simp
  have dr: "daily_ret False ?p ! 2 = [Some (1 / 10), Some (1 / 10)]"
    by (simp add: daily_ret_def prim_defs)
  from n_open_divisor [OF a b c2, of False] nz d2
  have d3: "strat_gross False ?p ?q ! 2 = Some (1 / 10)"
    unfolding dr by auto
  from d1 d2 d3 show ?thesis by blast
qed

section \<open>Backtest: missing prices\<close>

lemma ffill_row_nth:
  "i < length p \<Longrightarrow> i < length r \<Longrightarrow> ffill_row p r ! i = ffill_cell (p ! i) (r ! i)"
proof (induction p r arbitrary: i rule: ffill_row.induct)
  case (1 p ps c cs)
  then show ?case by (cases i) simp_all
qed simp_all

lemma ffill_from_nth_0:
  "t \<noteq> [] \<Longrightarrow> ffill_from p t ! 0 = ffill_row p (t ! 0)"
  by (cases t) simp_all

lemma ffill_from_nth_Suc:
  "Suc d < length t \<Longrightarrow>
   ffill_from p t ! Suc d = ffill_row (ffill_from p t ! d) (t ! Suc d)"
proof (induction t arbitrary: p d)
  case Nil then show ?case by simp
next
  case (Cons r t)
  show ?case
  proof (cases d)
    case 0
    with Cons.prems show ?thesis by (cases t) simp_all
  next
    case (Suc k)
    with Cons.prems have "Suc k < length t" by simp
    from Cons.IH[OF this] Suc show ?thesis by simp
  qed
qed

lemma ffill_nth_Suc:
  "Suc d < length t \<Longrightarrow> ffill t ! Suc d = ffill_row (ffill t ! d) (t ! Suc d)"
  by (simp add: ffill_def ffill_from_nth_Suc)

lemma ffill_nth_length: "d < length t \<Longrightarrow> length (ffill t ! d) = length (t ! d)"
proof (cases d)
  case 0
  assume "d < length t"
  with 0 show ?thesis by (cases t) (simp_all add: ffill_def)
next
  case (Suc k)
  assume "d < length t"
  with Suc show ?thesis by (simp add: ffill_nth_Suc ffill_row_length)
qed

lemma ffill_cell_nth_Suc:
  assumes "Suc d < length t" "i < length (t ! d)" "i < length (t ! Suc d)"
  shows "ffill t ! Suc d ! i = ffill_cell (ffill t ! d ! i) (t ! Suc d ! i)"
proof -
  from assms have "i < length (ffill t ! d)" by (simp add: ffill_nth_length)
  with assms show ?thesis by (simp add: ffill_nth_Suc ffill_row_nth)
qed

lemma pct_change_row_Suc:
  assumes "Suc d < length t"
  shows "pct_change pad t ! Suc d =
     (if pad then map2 pct_cell (ffill t ! Suc d) (ffill t ! d)
      else map2 pct_cell (t ! Suc d) (t ! d))"
proof -
  define dd where "dd = (if pad then ffill t else t)"
  have len: "length dd = length t" by (simp add: dd_def ffill_length)
  have "tmap2 pct_cell dd (shift1 dd) ! Suc d = map2 pct_cell (dd ! Suc d) (shift1 dd ! Suc d)"
    using assms(1) len by (intro tmap2_nth) (simp_all add: shift1_length)
  also have "shift1 dd ! Suc d = dd ! d" using assms(1) len by (simp add: shift1_nth_Suc)
  finally have "pct_change pad t ! Suc d = map2 pct_cell (dd ! Suc d) (dd ! d)"
    by (simp only: pct_change_def Let_def dd_def)
  then show ?thesis by (simp add: dd_def)
qed

lemma daily_ret_nth_Suc:
  assumes "\<forall>r\<in>set t. length r = w" "Suc d < length t" "i < w"
  shows "daily_ret pad t ! Suc d ! i =
     fillna_cell 0 (if pad then pct_cell (ffill t ! Suc d ! i) (ffill t ! d ! i)
      else pct_cell (t ! Suc d ! i) (t ! d ! i))"
proof -
  from assms have l0: "length (t ! d) = w" and l1: "length (t ! Suc d) = w" by simp_all
  from assms(2) l0 l1 have f0: "length (ffill t ! d) = w" and f1: "length (ffill t ! Suc d) = w"
    by (simp_all add: ffill_nth_length)
  have "daily_ret pad t ! Suc d = map (fillna_cell 0) (pct_change pad t ! Suc d)"
    using assms(2) by (simp add: daily_ret_def fillna_nth pct_change_length)
  then show ?thesis
    using assms(3) l0 l1 f0 f1 by (simp add: pct_change_row_Suc[OF assms(2)])
qed

lemma pct_cell_same: "fillna_cell 0 (pct_cell c c) = Some 0"
  by (cases c) (simp_all add: pct_cell_def)

lemma daily_ret_nth_0_cell:
  "t \<noteq> [] \<Longrightarrow> i < length (t ! 0) \<Longrightarrow> daily_ret pad t ! 0 ! i = Some 0"
  by (simp add: daily_ret_nth_0)

lemma daily_ret_at_gap:
  assumes "\<forall>r\<in>set t. length r = w" "d < length t" "i < w" "t ! d ! i = None"
  shows "daily_ret pad t ! d ! i = Some 0"
proof (cases d)
  case 0
  from assms 0 have "t \<noteq> []" and "i < length (t ! 0)" by auto
  with 0 show ?thesis by (simp add: daily_ret_nth_0_cell)
next
  case (Suc k)
  from assms Suc have lk: "length (t ! k) = w" and ld: "length (t ! Suc k) = w" by simp_all
  have "ffill t ! Suc k ! i = ffill_cell (ffill t ! k ! i) (t ! Suc k ! i)"
    using assms Suc lk ld by (intro ffill_cell_nth_Suc) simp_all
  with assms(4) Suc have same: "ffill t ! Suc k ! i = ffill t ! k ! i" by simp
  show ?thesis
    using assms Suc
    by (simp add: daily_ret_nth_Suc[OF assms(1)] same pct_cell_same pct_cell_nan)
qed

lemma daily_ret_after_gap_unpadded:
  assumes "\<forall>r\<in>set t. length r = w" "Suc d < length t" "i < w" "t ! d ! i = None"
  shows "daily_ret False t ! Suc d ! i = Some 0"
  using assms by (simp add: daily_ret_nth_Suc[OF assms(1)] pct_cell_nan)

lemma daily_ret_padded:
  assumes "\<forall>r\<in>set t. length r = w" "Suc d < length t" "i < w"
    and "t ! Suc d ! i = Some v" "ffill t ! d ! i = Some u" "u \<noteq> 0"
  shows "daily_ret True t ! Suc d ! i = Some (v / u - 1)"
proof -
  from assms have lk: "length (t ! d) = w" and ld: "length (t ! Suc d) = w" by simp_all
  have "ffill t ! Suc d ! i = ffill_cell (ffill t ! d ! i) (t ! Suc d ! i)"
    using assms lk ld by (intro ffill_cell_nth_Suc) simp_all
  with assms have "ffill t ! Suc d ! i = Some v" by simp
  with assms show ?thesis
    by (simp add: daily_ret_nth_Suc[OF assms(1)] pct_cell_def)
qed

lemma shifted_pos_cell_some:
  assumes "d < length positions" "i < length (shifted_pos positions ! d)"
  shows "\<exists>x. shifted_pos positions ! d ! i = Some x"
proof -
  have "shifted_pos positions ! d = map (fillna_cell 0) (shift1 positions ! d)"
    using assms(1) by (simp add: shifted_pos_def fillna_nth shift1_length)
  with assms(2) have "shifted_pos positions ! d ! i = fillna_cell 0 (shift1 positions ! d ! i)"
    by simp
  then show ?thesis by (cases "shift1 positions ! d ! i") simp_all
qed

lemma row_sum_some: "\<exists>x. row_sum r = Some x"
  by (simp add: row_sum_def)

lemma strat_ret_defined:
  assumes "length prices = length positions" "d < length positions"
  shows "\<exists>x. strat_ret pad prices positions cost ! d = Some x"
proof -
  obtain g where g: "row_sum (map2 fmul (shifted_pos positions ! d) (daily_ret pad prices ! d)) = Some g"
    using row_sum_some by blast
  obtain s where s: "row_sum (shifted_pos positions ! d) = Some s"
    using row_sum_some by blast
  have "\<exists>tr. trades positions ! d = Some tr"
    unfolding trades_nth[OF assms(2)] by (rule row_sum_some)
  then obtain tr where tr: "trades positions ! d = Some tr" by blast
  have "\<exists>n. n \<noteq> 0 \<and> replace01 (Some s) = Some n"
    by (simp add: replace01_def)
  then obtain n where n: "n \<noteq> 0" "n_open positions ! d = Some n"
    using assms(2) s by (auto simp: n_open_nth)
  have "strat_gross pad prices positions ! d = Some (g / n)"
    using assms n g by (simp add: strat_gross_nth)
  with tr assms show ?thesis by (simp add: strat_ret_nth)
qed

lemma cumprod_from_defined:
  "d < length s \<Longrightarrow> \<forall>c\<in>set s. c \<noteq> None \<Longrightarrow> \<exists>x. cumprod_from a s ! d = Some x"
proof (induction a s arbitrary: d rule: cumprod_from.induct)
  case (1 acc)
  then show ?case by simp
next
  case (2 acc cs)
  then show ?case by simp
next
  case (3 acc a cs)
  then show ?case by (cases d) simp_all
qed

lemma strat_cum_defined:
  assumes "length prices = length positions" "d < length positions"
  shows "\<exists>x. strat_cum pad prices positions cost ! d = Some x"
proof -
  let ?sr = "strat_ret pad prices positions cost"
  let ?g = "map (fadd (Some 1)) ?sr"
  have len: "length ?sr = length positions" using assms(1) by (simp add: strat_ret_length)
  have "\<forall>c\<in>set ?g. c \<noteq> None"
  proof
    fix c assume "c \<in> set ?g"
    then obtain k where k: "k < length ?sr" and c: "c = fadd (Some 1) (?sr ! k)"
      by (auto simp: in_set_conv_nth)
    from k len have "k < length positions" by simp
    from strat_ret_defined[OF assms(1) this, of pad cost] c show "c \<noteq> None" by auto
  qed
  moreover have "d < length ?g" using assms(2) len by simp
  ultimately obtain x where "cumprod_from 1 ?g ! d = Some x"
    using cumprod_from_defined by blast
  then show ?thesis
    using assms(2) len by (simp add: strat_cum_def cumprod_def cumprod_from_length)
qed

lemma ffill_row_no_zero:
  "Some 0 \<notin> set p \<Longrightarrow> Some 0 \<notin> set r \<Longrightarrow> Some 0 \<notin> set (ffill_row p r)"
proof (induction p r rule: ffill_row.induct)
  case (1 p ps c cs)
  then show ?case by (cases c) auto
qed simp_all

lemma ffill_from_no_zero:
  "Some 0 \<notin> set p \<Longrightarrow> \<forall>r\<in>set t. Some 0 \<notin> set r \<Longrightarrow>
   \<forall>r\<in>set (ffill_from p t). Some 0 \<notin> set r"
proof (induction t arbitrary: p)
  case Nil then show ?case by simp
next
  case (Cons r t)
  from Cons.prems have a: "Some 0 \<notin> set (ffill_row p r)"
    by (simp add: ffill_row_no_zero)
  from Cons.prems have b: "\<forall>r\<in>set t. Some 0 \<notin> set r" by simp
  from Cons.IH[OF a b] a show ?case by simp
qed

lemma ffill_no_zero:
  "\<forall>r\<in>set t. Some 0 \<notin> set r \<Longrightarrow> \<forall>r\<in>set (ffill t). Some 0 \<notin> set r"
  unfolding ffill_def by (rule ffill_from_no_zero) simp_all

lemma daily_ret_row_length:
  assumes "\<forall>r\<in>set t. length r = w" "d < length t"
  shows "length (daily_ret pad t ! d) = w"
proof (cases d)
  case 0
  with assms show ?thesis by (cases t) (simp_all add: daily_ret_nth_0)
next
  case (Suc k)
  from assms Suc have l0: "length (t ! k) = w" and l1: "length (t ! Suc k) = w" by simp_all
  from assms Suc l0 l1 have f0: "length (ffill t ! k) = w" and f1: "length (ffill t ! Suc k) = w"
    by (simp_all add: ffill_nth_length)
  have "daily_ret pad t ! Suc k = map (fillna_cell 0) (pct_change pad t ! Suc k)"
    using assms Suc by (simp add: daily_ret_def fillna_nth pct_change_length)
  moreover have "Suc k < length t" using assms Suc by simp
  ultimately show ?thesis
    using Suc l0 l1 f0 f1 by (simp add: pct_change_row_Suc)
qed

text \<open>
  C10, amended. For rectangular, aligned tables without a zero price: where the price
  of an instrument is missing on a date, its period return on that date is exactly 0
  and its contribution to the gross return is 0; no period return, strategy return or
  cumulative return is undefined. Where only the prior price is missing, the return is
  0 when \<open>pct_change\<close> does not pad; under the \<open>fill_method='pad'\<close> default it is the
  change against the last price observed before the gap.
\<close>

theorem daily_ret_missing_prices:
  assumes "\<forall>r\<in>set prices. length r = w \<and> Some 0 \<notin> set r"
    and "\<forall>r\<in>set positions. length r = w"
    and "length prices = length positions"
    and "d < length prices" and "i < w"
  shows "(prices ! d ! i = None \<longrightarrow>
            daily_ret pad prices ! d ! i = Some 0 \<and>
            fmul (shifted_pos positions ! d ! i) (daily_ret pad prices ! d ! i) = Some 0) \<and>
         (0 < d \<and> \<not> pad \<and> prices ! (d - 1) ! i = None \<longrightarrow>
            daily_ret pad prices ! d ! i = Some 0) \<and>
         (0 < d \<and> pad \<and> prices ! d ! i = Some v \<and> ffill prices ! (d - 1) ! i = Some u \<longrightarrow>
            daily_ret pad prices ! d ! i = Some (v / u - 1)) \<and>
         (0 < d \<and> pad \<and> ffill prices ! (d - 1) ! i = None \<longrightarrow>
            daily_ret pad prices ! d ! i = Some 0) \<and>
         daily_ret pad prices ! d ! i \<noteq> None \<and>
         fst (backtest pad prices positions cost_per_trade) ! d \<noteq> None \<and>
         snd (backtest pad prices positions cost_per_trade) ! d \<noteq> None"
proof -
  from assms(1) have rect: "\<forall>r\<in>set prices. length r = w" by blast
  from assms have dpos: "d < length positions" by simp
  have a: "daily_ret pad prices ! d ! i = Some 0
         \<and> fmul (shifted_pos positions ! d ! i) (daily_ret pad prices ! d ! i) = Some 0"
    if m: "prices ! d ! i = None"
  proof -
    have z: "daily_ret pad prices ! d ! i = Some 0"
      using rect assms(4,5) m by (rule daily_ret_at_gap)
    have "length (shifted_pos positions ! d) = w"
    proof (cases d)
      case 0
      with dpos assms(2) show ?thesis by (simp add: shifted_pos_nth_0)
    next
      case (Suc k)
      with dpos assms(2) show ?thesis by (simp add: shifted_pos_nth_Suc)
    qed
    with assms(5) obtain x where "shifted_pos positions ! d ! i = Some x"
      using shifted_pos_cell_some[OF dpos, of i] by auto
    with z show ?thesis by simp
  qed
  have b: "daily_ret pad prices ! d ! i = Some 0"
    if h: "0 < d \<and> \<not> pad \<and> prices ! (d - 1) ! i = None"
  proof -
    from h obtain k where k: "d = Suc k" by (cases d) auto
    with h assms(4) have "Suc k < length prices" and "prices ! k ! i = None" by simp_all
    from daily_ret_after_gap_unpadded[OF rect this(1) assms(5) this(2)] h k show ?thesis by simp
  qed
  have c: "daily_ret pad prices ! d ! i = Some (v / u - 1)"
    if h: "0 < d \<and> pad \<and> prices ! d ! i = Some v \<and> ffill prices ! (d - 1) ! i = Some u"
  proof -
    from h obtain k where k: "d = Suc k" by (cases d) auto
    have lk: "length (prices ! k) = w" using k assms(4) rect by simp
    from k assms(4) have kk: "Suc k < length prices" by simp
    then have "ffill prices ! k \<in> set (ffill prices)" by (simp add: ffill_length)
    moreover from assms(1) have "\<forall>r\<in>set (ffill prices). Some 0 \<notin> set r"
      by (intro ffill_no_zero) blast
    ultimately have nz: "Some 0 \<notin> set (ffill prices ! k)" by blast
    from kk lk have "length (ffill prices ! k) = w" by (simp add: ffill_nth_length)
    with assms(5) have "ffill prices ! k ! i \<in> set (ffill prices ! k)" by simp
    with nz h k have "u \<noteq> 0" by auto
    from h k have "prices ! Suc k ! i = Some v" "ffill prices ! k ! i = Some u" by simp_all
    from daily_ret_padded[OF rect kk assms(5) this \<open>u \<noteq> 0\<close>] h k show ?thesis by simp
  qed
  have c': "daily_ret pad prices ! d ! i = Some 0"
    if h: "0 < d \<and> pad \<and> ffill prices ! (d - 1) ! i = None"
  proof -
    from h obtain k where k: "d = Suc k" by (cases d) auto
    from k assms(4) have kk: "Suc k < length prices" by simp
    from daily_ret_nth_Suc[OF rect kk assms(5), of pad] h k show ?thesis
      by (simp add: pct_cell_nan)
  qed
  have e: "daily_ret pad prices ! d ! i \<noteq> None"
  proof -
    from assms(4) have "None \<notin> set (daily_ret pad prices ! d)" by (rule daily_ret_no_nan)
    moreover have "length (daily_ret pad prices ! d) = w"
      using rect assms(4) by (rule daily_ret_row_length)
    ultimately show ?thesis using assms(5) by (metis nth_mem)
  qed
  have f: "fst (backtest pad prices positions cost_per_trade) ! d \<noteq> None"
    using strat_ret_defined[OF assms(3) dpos, of pad cost_per_trade] by (auto simp: backtest_def)
  have g: "snd (backtest pad prices positions cost_per_trade) ! d \<noteq> None"
    using strat_cum_defined[OF assms(3) dpos, of pad cost_per_trade] by (auto simp: backtest_def)
  from a b c c' e f g show ?thesis by blast
qed

theorem daily_ret_missing_prices_witness:
  "daily_ret True [[Some 100, Some 50], [None, Some 40], [Some 110, Some 44]] ! 1 ! 0 = Some 0 \<and>
   fmul (shifted_pos [[Some 1, Some 0], [Some 1, Some 0], [Some 1, Some 0]] ! 1 ! 0)
     (daily_ret True [[Some 100, Some 50], [None, Some 40], [Some 110, Some 44]] ! 1 ! 0)
     = Some 0 \<and>
   fst (backtest True [[Some 100, Some 50], [None, Some 40], [Some 110, Some 44]]
          [[Some 1, Some 0], [Some 1, Some 0], [Some 1, Some 0]] 0) ! 1 \<noteq> None"
proof -
  let ?p = "[[Some 100, Some 50], [None, Some 40], [Some 110, Some 44]] :: table"
  let ?q = "[[Some 1, Some 0], [Some 1, Some 0], [Some 1, Some 0]] :: table"
  have a: "\<forall>r\<in>set ?p. length r = 2 \<and> Some 0 \<notin> set r" by simp
  have b: "\<forall>r\<in>set ?q. length r = 2" by simp
  have c: "length ?p = length ?q" by simp
  have d: "1 < length ?p" by simp
  have i: "(0 :: nat) < 2" by simp
  have m: "?p ! 1 ! 0 = None" by simp
  from daily_ret_missing_prices [OF a b c d i, of True 0 0 0] m show ?thesis by blast
qed

text \<open>
  C10, as stated, fails under the \<open>fill_method='pad'\<close> default of \<open>pct_change\<close>: with
  prices 100, missing, 110 the prior price of the third date is missing, and the
  return on the third date is \<open>110 / 100 - 1\<close>, not 0; a held position earns it.
\<close>

theorem daily_ret_pads_prior_gap:
  "daily_ret True [[Some 100], [None], [Some 110]] = [[Some 0], [Some 0], [Some (1 / 10)]] \<and>
   fst (backtest True [[Some 100], [None], [Some 110]] [[Some 1], [Some 1], [Some 1]] 0)
     = [Some 0, Some 0, Some (1 / 10)]"
  by (simp add: backtest_defs prim_defs)

section \<open>No look-ahead\<close>


























end
